theory Spec2Isabelle
  imports Complex_Main "HOL-Library.Char_ord" "HOL-Library.List_Lexorder" "HOL-Library.AList"
    "HOL-Library.Sublist"
begin

section \<open>JavaScript values as the generator sees them\<close>

text \<open>
  The generator reads \<^verbatim>\<open>package.json\<close> with \<^verbatim>\<open>JSON.parse\<close>, changes the parsed value and
  writes it back with \<^verbatim>\<open>JSON.stringify(packageJson, null, 2)\<close>. A parsed value is a tree of
  null, booleans, numbers, strings, arrays and objects. An object is kept as the list of its
  own properties in the order in which \<^verbatim>\<open>Object.keys\<close>, the spread syntax and
  \<^verbatim>\<open>JSON.stringify\<close> enumerate them (ECMAScript, OrdinaryOwnPropertyKeys): first the keys
  that are array indices, in ascending numeric order, then every other string key in the
  order in which the property was created.

  Strings are lists of \<^typ>\<open>char\<close>; the order on \<^typ>\<open>char\<close> is the order of the character
  codes and the order on strings is the lexicographic one, a proper prefix being smaller.
  This is the comparison the default \<^verbatim>\<open>Array.prototype.sort\<close> applies to strings, read on
  code units below 256.
\<close>

datatype json =
    JNull
  | JBool bool
  | JNum rat
  | JStr string
  | JArr "json list"
  | JObj "(string \<times> json) list"

type_synonym js_object = "(string \<times> json) list"

definition is_digit :: "char \<Rightarrow> bool" where
  "is_digit c \<longleftrightarrow> CHR ''0'' \<le> c \<and> c \<le> CHR ''9''"

definition dec_value :: "string \<Rightarrow> nat" where
  "dec_value s = foldl (\<lambda>n c. 10 * n + (of_char c - 48)) 0 s"

text \<open>
  An array index is a canonical numeric string: the decimal numeral, without leading
  zeros, of an integer from 0 to 2^32 - 2.
\<close>

definition is_array_index :: "string \<Rightarrow> bool" where
  "is_array_index s \<longleftrightarrow>
     s \<noteq> [] \<and> list_all is_digit s \<and> (length s = 1 \<or> take 1 s \<noteq> ''0'') \<and>
     dec_value s < 4294967295"

definition digit_char :: "nat \<Rightarrow> char" where
  "digit_char d = char_of (48 + d)"

function show_nat :: "nat \<Rightarrow> string" where
  "show_nat n = (if n < 10 then [digit_char n] else show_nat (n div 10) @ [digit_char (n mod 10)])"
  by pat_completeness auto
termination
  by (relation "measure id") auto

declare show_nat.simps [simp del]

text \<open>
  Creating a property that is an array index puts it into the leading block of index keys,
  at its numeric position; any other new key goes to the end.
\<close>

fun insert_index :: "string \<Rightarrow> json \<Rightarrow> js_object \<Rightarrow> js_object" where
  "insert_index k v [] = [(k, v)]"
| "insert_index k v (p # ps) =
     (if is_array_index (fst p) \<and> dec_value (fst p) < dec_value k
      then p # insert_index k v ps
      else (k, v) # p # ps)"

text \<open>
  \<open>obj_set\<close> is what defining or assigning an own data property does: an existing key keeps
  its place and takes the new value, a new key is placed as described above.
\<close>

definition obj_set :: "js_object \<Rightarrow> string \<Rightarrow> json \<Rightarrow> js_object" where
  "obj_set obj k v =
     (if k \<notin> fst ` set obj \<and> is_array_index k then insert_index k v obj
      else AList.update k v obj)"

text \<open>
  The own enumerable properties that \<^verbatim>\<open>{...x}\<close> copies from a value \<open>x\<close>; \<open>None\<close> is
  \<^verbatim>\<open>undefined\<close>. Arrays and strings spread their elements under the index keys; null,
  undefined, booleans and numbers spread nothing.
\<close>

fun spread_entries :: "json option \<Rightarrow> js_object" where
  "spread_entries (Some (JObj kv)) = kv"
| "spread_entries (Some (JArr xs)) = zip (map show_nat [0..<length xs]) xs"
| "spread_entries (Some (JStr s)) = zip (map show_nat [0..<length s]) (map (\<lambda>c. JStr [c]) s)"
| "spread_entries _ = []"

definition spread_into :: "js_object \<Rightarrow> js_object \<Rightarrow> js_object" where
  "spread_into target src = foldl (\<lambda>obj (k, v). obj_set obj k v) target src"

section \<open>Merging scripts into the manifest\<close>

text \<open>
  The body of \<^verbatim>\<open>addScriptsToPackageJson\<close> between the read and the write:
  \<^verbatim>\<open>
  packageJson.scripts = { ...packageJson.scripts, ...scripts };
  // Sort the keys in alphabetical order
  const sortedScripts = Object.keys(packageJson.scripts)
    .sort()
    .reduce((obj, key) => ({ ...obj, [key]: packageJson.scripts[key] }), {});
  packageJson.scripts = sortedScripts;
  \<close>
\<close>

definition merged_scripts :: "json option \<Rightarrow> js_object \<Rightarrow> js_object" where
  "merged_scripts old scripts = spread_into (spread_into [] (spread_entries old)) scripts"

definition reducer :: "js_object \<Rightarrow> js_object \<Rightarrow> string \<Rightarrow> js_object" where
  "reducer merged obj key =
     (case map_of merged key of
        Some v \<Rightarrow> obj_set (spread_into [] obj) key v
      | None \<Rightarrow> spread_into [] obj)"

definition sorted_scripts :: "js_object \<Rightarrow> js_object" where
  "sorted_scripts merged = foldl (reducer merged) [] (sort (map fst merged))"

datatype error =
    Error string
  | TypeError
  | SyntaxError
  | SystemError string string "string list"

text \<open>
  The source is an ES module, so it runs in strict mode: reading a property of
  \<^verbatim>\<open>null\<close> and creating a property on a primitive both throw a TypeError. A property
  \<^verbatim>\<open>scripts\<close> or \<^verbatim>\<open>type\<close> put on an array is not an element, and
  \<^verbatim>\<open>JSON.stringify\<close> leaves it out.
\<close>

definition set_scripts :: "json \<Rightarrow> js_object \<Rightarrow> error + json" where
  "set_scripts packageJson scripts =
     (case packageJson of
        JObj kv \<Rightarrow>
          (let merged = merged_scripts (map_of kv ''scripts'') scripts;
               kv1 = obj_set kv ''scripts'' (JObj merged)
           in Inr (JObj (obj_set kv1 ''scripts'' (JObj (sorted_scripts merged)))))
      | JArr xs \<Rightarrow> Inr (JArr xs)
      | _ \<Rightarrow> Inl TypeError)"

definition set_module_type :: "json \<Rightarrow> error + json" where
  "set_module_type packageJson =
     (case packageJson of
        JObj kv \<Rightarrow> Inr (JObj (obj_set kv ''type'' (JStr ''module'')))
      | JArr xs \<Rightarrow> Inr (JArr xs)
      | _ \<Rightarrow> Inl TypeError)"

section \<open>The process runner's tokenizer\<close>

text \<open>
  \<^verbatim>\<open>command.match(/[^"\s]+|"[^"]+"/g)\<close>: all matches, left to right, of a run of
  characters that are neither a double quote nor white space, or else of a double quote, one
  or more characters other than a double quote, and a double quote. Where neither alternative
  matches, the scan moves on by one character. \<open>is_space\<close> is the class \<^verbatim>\<open>\s\<close> on code units
  below 256.
\<close>

definition dq :: char where
  "dq = CHR 0x22"

definition is_space :: "char \<Rightarrow> bool" where
  "is_space c \<longleftrightarrow> c \<in> set [CHR 0x09, CHR 0x0A, CHR 0x0B, CHR 0x0C, CHR 0x0D, CHR 0x20, CHR 0xA0]"

definition plain :: "char \<Rightarrow> bool" where
  "plain c \<longleftrightarrow> c \<noteq> dq \<and> \<not> is_space c"

function regex_matches :: "string \<Rightarrow> string list" where
  "regex_matches [] = []"
| "regex_matches (c # cs) =
     (if plain c then
        takeWhile plain (c # cs) # regex_matches (dropWhile plain cs)
      else if c = dq \<and> takeWhile (\<lambda>x. x \<noteq> dq) cs \<noteq> [] \<and> dropWhile (\<lambda>x. x \<noteq> dq) cs \<noteq> [] then
        (dq # takeWhile (\<lambda>x. x \<noteq> dq) cs @ [dq]) # regex_matches (tl (dropWhile (\<lambda>x. x \<noteq> dq) cs))
      else regex_matches cs)"
  by pat_completeness auto
termination
proof (relation "measure length")
  fix c :: char and cs :: string
  have "length (dropWhile plain cs) \<le> length cs"
    by (rule length_dropWhile_le)
  then show "(dropWhile plain cs, c # cs) \<in> measure length"
    by simp
  have "length (tl (dropWhile (\<lambda>x. x \<noteq> dq) cs)) \<le> length cs"
    using length_dropWhile_le [of "\<lambda>x. x \<noteq> dq" cs] by simp
  then show "(tl (dropWhile (\<lambda>x. x \<noteq> dq) cs), c # cs) \<in> measure length"
    by simp
qed simp_all

section \<open>The platform: files, child processes, console\<close>

text \<open>
  A path is the list of its components below the root. A file holds either a JSON document,
  kept as the value that \<^verbatim>\<open>JSON.parse\<close> gives for it and \<^verbatim>\<open>JSON.stringify\<close> writes for
  it, or any other text.
\<close>

type_synonym path = "string list"

datatype content = Text string | Json json

datatype node = Dir | File content

type_synonym files = "path \<Rightarrow> node option"

datatype spawn_result = LaunchFailed string | ChildExit "nat option"

text \<open>
  What a child process does is not the generator's code: it is a parameter, a function from
  the executable, its arguments, the working directory and the files to the way the child
  ends and the files it leaves. \<open>ChildExit None\<close> is an exit with code \<^verbatim>\<open>null\<close> (killed by
  a signal).
\<close>

type_synonym processes = "string \<Rightarrow> string list \<Rightarrow> path \<Rightarrow> files \<Rightarrow> spawn_result \<times> files"

datatype event =
    ConsoleLog string
  | ConsoleError string
  | Spawn string "string list" path
  | ChildClosed string spawn_result
  | Mkdir path
  | WriteFile path content
  | UnhandledRejection error

record world =
  files :: files
  trace :: "event list"

datatype outcome = Ok | Thrown error | Exited nat

type_synonym step = "world \<Rightarrow> outcome \<times> world"

definition emit :: "event \<Rightarrow> world \<Rightarrow> world" where
  "emit e w = w\<lparr>trace := trace w @ [e]\<rparr>"

fun do_all :: "step list \<Rightarrow> step" where
  "do_all [] w = (Ok, w)"
| "do_all (s # ss) w = (case s w of (Ok, w') \<Rightarrow> do_all ss w' | r \<Rightarrow> r)"

definition try_catch :: "step \<Rightarrow> (error \<Rightarrow> step) \<Rightarrow> step" where
  "try_catch body handler w = (case body w of (Thrown e, w') \<Rightarrow> handler e w' | r \<Rightarrow> r)"

definition lift :: "error + 'a \<Rightarrow> ('a \<Rightarrow> step) \<Rightarrow> step" where
  "lift r k w = (case r of Inl e \<Rightarrow> (Thrown e, w) | Inr x \<Rightarrow> k x w)"

definition throw :: "error \<Rightarrow> step" where
  "throw e w = (Thrown e, w)"

definition process_exit :: "nat \<Rightarrow> step" where
  "process_exit code w = (Exited code, w)"

definition console_log :: "string \<Rightarrow> step" where
  "console_log s w = (Ok, emit (ConsoleLog s) w)"

definition console_error :: "string \<Rightarrow> step" where
  "console_error s w = (Ok, emit (ConsoleError s) w)"

fun message :: "error \<Rightarrow> string" where
  "message (Error m) = m"
| "message TypeError = ''TypeError''"
| "message SyntaxError = ''SyntaxError''"
| "message (SystemError code syscall p) =
     code @ '': '' @ syscall @ concat (map (\<lambda>s. '' '' @ s) p)"

definition path_str :: "path \<Rightarrow> string" where
  "path_str p = (if p = [] then ''/'' else concat (map (\<lambda>s. ''/'' @ s) p))"

subsection \<open>path.resolve and path.join\<close>

fun split_slash :: "string \<Rightarrow> string list" where
  "split_slash [] = [[]]"
| "split_slash (c # cs) =
     (if c = CHR ''/'' then [] # split_slash cs
      else (case split_slash cs of [] \<Rightarrow> [[c]] | s # ss \<Rightarrow> (c # s) # ss))"

fun walk :: "path \<Rightarrow> string list \<Rightarrow> path" where
  "walk p [] = p"
| "walk p (s # ss) =
     (if s = [] \<or> s = ''.'' then walk p ss
      else if s = ''..'' then walk (butlast p) ss
      else walk (p @ [s]) ss)"

definition path_resolve :: "path \<Rightarrow> string \<Rightarrow> path" where
  "path_resolve cwd name = walk (if take 1 name = ''/'' then [] else cwd) (split_slash name)"

definition path_join :: "path \<Rightarrow> string \<Rightarrow> path" where
  "path_join p name = walk p (split_slash name)"

subsection \<open>fs\<close>

definition is_dir :: "files \<Rightarrow> path \<Rightarrow> bool" where
  "is_dir fs p \<longleftrightarrow> p = [] \<or> fs p = Some Dir"

definition existsSync :: "files \<Rightarrow> path \<Rightarrow> bool" where
  "existsSync fs p \<longleftrightarrow> p = [] \<or> fs p \<noteq> None"

definition readFile :: "files \<Rightarrow> path \<Rightarrow> error + content" where
  "readFile fs p =
     (if p = [] then Inl (SystemError ''EISDIR'' ''read'' [])
      else case fs p of
        None \<Rightarrow> Inl (SystemError ''ENOENT'' ''open'' [path_str p])
      | Some Dir \<Rightarrow> Inl (SystemError ''EISDIR'' ''read'' [])
      | Some (File c) \<Rightarrow> Inr c)"

definition writeFile :: "path \<Rightarrow> content \<Rightarrow> step" where
  "writeFile p c w =
     (if is_dir (files w) p then (Thrown (SystemError ''EISDIR'' ''open'' [path_str p]), w)
      else if \<not> is_dir (files w) (butlast p) then
        (Thrown (SystemError ''ENOENT'' ''open'' [path_str p]), w)
      else (Ok, emit (WriteFile p c) (w\<lparr>files := (files w)(p \<mapsto> File c)\<rparr>)))"

definition mkdir :: "path \<Rightarrow> step" where
  "mkdir p w =
     (if existsSync (files w) p then (Thrown (SystemError ''EEXIST'' ''mkdir'' [path_str p]), w)
      else if \<not> is_dir (files w) (butlast p) then
        (Thrown (SystemError ''ENOENT'' ''mkdir'' [path_str p]), w)
      else (Ok, emit (Mkdir p) (w\<lparr>files := (files w)(p \<mapsto> Dir)\<rparr>)))"

text \<open>\<^verbatim>\<open>mkdir(p, { recursive: true })\<close> creates the missing ancestors as well and accepts an
  existing directory.\<close>

definition is_file :: "files \<Rightarrow> path \<Rightarrow> bool" where
  "is_file fs p = (case fs p of Some (File c) \<Rightarrow> True | _ \<Rightarrow> False)"

definition mkdir_recursive :: "path \<Rightarrow> step" where
  "mkdir_recursive p w =
     (if list_ex (is_file (files w)) (prefixes p) then
        (Thrown (SystemError (if is_file (files w) p then ''EEXIST'' else ''ENOTDIR'')
                   ''mkdir'' [path_str p]), w)
      else (Ok, emit (Mkdir p)
                  (w\<lparr>files := (\<lambda>q. if prefix q p \<and> q \<noteq> [] \<and> files w q = None then Some Dir
                                    else files w q)\<rparr>)))"

definition read_then :: "path \<Rightarrow> (content \<Rightarrow> step) \<Rightarrow> step" where
  "read_then p k w = lift (readFile (files w) p) k w"

definition json_parse :: "content \<Rightarrow> error + json" where
  "json_parse c = (case c of Json v \<Rightarrow> Inr v | Text s \<Rightarrow> Inl SyntaxError)"

section \<open>The process runner\<close>

text \<open>
  \<^verbatim>\<open>runCommand\<close> prints the command line, tokenizes it, spawns the first token with the
  others as arguments, and settles when the child reports \<^verbatim>\<open>error\<close> or \<^verbatim>\<open>exit\<close>. With no
  token at all \<^verbatim>\<open>match\<close> returns \<^verbatim>\<open>null\<close> and \<^verbatim>\<open>args.shift()\<close> throws a TypeError,
  which rejects the promise. The three parts are kept apart: the launch, what the child does
  to the files, and the handler of its end.
\<close>

definition show_code :: "nat option \<Rightarrow> string" where
  "show_code code = (case code of None \<Rightarrow> ''null'' | Some n \<Rightarrow> show_nat n)"

definition exit_error :: "string \<Rightarrow> nat option \<Rightarrow> error" where
  "exit_error command code =
     Error (''Command '' @ [dq] @ command @ [dq] @ '' failed with exit code '' @ show_code code)"

definition spawn_error :: "string \<Rightarrow> string list \<Rightarrow> string \<Rightarrow> error" where
  "spawn_error cmd args code = SystemError code (''spawn '' @ cmd) args"

definition child_effect :: "processes \<Rightarrow> string \<Rightarrow> string list \<Rightarrow> path \<Rightarrow> world \<Rightarrow> spawn_result \<times> world" where
  "child_effect P cmd args cwd w =
     (case P cmd args cwd (files w) of
        (LaunchFailed code, fs') \<Rightarrow> (LaunchFailed code, w)
      | (ChildExit code, fs') \<Rightarrow> (ChildExit code, w\<lparr>files := fs'\<rparr>))"

definition child_closed :: "string \<Rightarrow> string \<Rightarrow> string list \<Rightarrow> spawn_result \<Rightarrow> step" where
  "child_closed command cmd args res w =
     (case res of
        LaunchFailed code \<Rightarrow>
          (Thrown (spawn_error cmd args code),
           emit (ConsoleError (message (spawn_error cmd args code)))
             (emit (ConsoleError (''Error while executing command: '' @ command))
               (emit (ChildClosed command res) w)))
      | ChildExit code \<Rightarrow>
          (if code \<noteq> Some 0 then
             (Thrown (exit_error command code),
              emit (ConsoleError (message (exit_error command code)))
                (emit (ChildClosed command res) w))
           else (Ok, emit (ChildClosed command res) w)))"

definition runCommand :: "processes \<Rightarrow> string \<Rightarrow> path \<Rightarrow> step" where
  "runCommand P command cwd w =
     (case regex_matches command of
        [] \<Rightarrow> (Thrown TypeError, emit (ConsoleLog command) w)
      | cmd # args \<Rightarrow>
          (case child_effect P cmd args cwd (emit (Spawn cmd args cwd) (emit (ConsoleLog command) w)) of
             (res, w') \<Rightarrow> child_closed command cmd args res w'))"

section \<open>The manifest store\<close>

definition file_not_found :: "path \<Rightarrow> error" where
  "file_not_found p = Error (''File not found: '' @ path_str p)"

definition modulePackageJson :: "path \<Rightarrow> step" where
  "modulePackageJson projectPath w =
     (let packageJsonPath = path_join projectPath ''package.json'' in
      if \<not> existsSync (files w) packageJsonPath then (Thrown (file_not_found packageJsonPath), w)
      else
        lift (readFile (files w) packageJsonPath) (\<lambda>packJsonFile.
        lift (json_parse packJsonFile) (\<lambda>packageJson.
        lift (set_module_type packageJson) (\<lambda>updated.
        writeFile packageJsonPath (Json updated)))) w)"

definition addScriptsToPackageJson :: "path \<Rightarrow> js_object \<Rightarrow> step" where
  "addScriptsToPackageJson projectPath scripts w =
     (let packageJsonPath = path_join projectPath ''package.json'' in
      if \<not> existsSync (files w) packageJsonPath then (Thrown (file_not_found packageJsonPath), w)
      else
        lift (readFile (files w) packageJsonPath) (\<lambda>packJsonFile.
        lift (json_parse packJsonFile) (\<lambda>packageJson.
        lift (set_scripts packageJson scripts) (\<lambda>updated.
        writeFile packageJsonPath (Json updated)))) w)"

section \<open>The steps\<close>

definition TSCONFIG :: "path \<Rightarrow> path" where
  "TSCONFIG dirname = path_join dirname ''project_config/tsconfig.json''"

definition ESLINT_CONFIG_JS :: "path \<Rightarrow> path" where
  "ESLINT_CONFIG_JS dirname = path_join dirname ''project_config/.eslintrc_js.json''"

definition ESLINT_CONFIG_TS :: "path \<Rightarrow> path" where
  "ESLINT_CONFIG_TS dirname = path_join dirname ''project_config/.eslintrc_ts.json''"

definition PRETTIER_CONFIG :: "path \<Rightarrow> path" where
  "PRETTIER_CONFIG dirname = path_join dirname ''project_config/.prettierrc.json''"

definition GITIGNORE :: "path \<Rightarrow> path" where
  "GITIGNORE dirname = path_join dirname ''project_config/.gitignore''"

definition npm_error_handler :: "error \<Rightarrow> step" where
  "npm_error_handler error =
     do_all [console_error (''Error while creating npm project: '' @ message error), process_exit 1]"

definition createNpmProject :: "processes \<Rightarrow> path \<Rightarrow> step" where
  "createNpmProject P projectPath =
     try_catch
       (do_all
          [runCommand P ''npm init -y'' projectPath,
           runCommand P ''npm install --save-dev eslint prettier eslint-config-prettier eslint-config-airbnb eslint-plugin-import'' projectPath,
           modulePackageJson projectPath,
           addScriptsToPackageJson projectPath
             [(''format'', JStr ''prettier --write .''), (''lint'', JStr ''eslint .'')]])
       npm_error_handler"

definition setupTypescript :: "processes \<Rightarrow> path \<Rightarrow> path \<Rightarrow> bool \<Rightarrow> step" where
  "setupTypescript P dirname projectPath singleDevScript =
     do_all
       [runCommand P ''npm install --save-dev typescript @types/node @typescript-eslint/parser @typescript-eslint/eslint-plugin'' projectPath,
        read_then (TSCONFIG dirname) (\<lambda>tsconfig.
          writeFile (path_join projectPath ''tsconfig.json'') tsconfig),
        mkdir_recursive (path_join projectPath ''src''),
        (if singleDevScript then
           addScriptsToPackageJson projectPath
             [(''build'', JStr ''tsc''), (''dev'', JStr ''tsc -w''), (''typecheck'', JStr ''tsc -b'')]
         else
           addScriptsToPackageJson projectPath [(''dev:typescript'', JStr ''tsc -w'')]),
        writeFile (path_join (path_join projectPath ''src'') ''app.ts'')
          (Text (''console.log('' @ [dq] @ ''Hello, world!'' @ [dq] @ '');''))]"

subsection \<open>Tailwind\<close>

definition nl :: char where
  "nl = CHR 0x0A"

definition unlines :: "string list \<Rightarrow> string" where
  "unlines ls = concat (map (\<lambda>l. l @ [nl]) ls)"

definition cssContent :: string where
  "cssContent =
     unlines
       [''@import '' @ [CHR 0x27] @ ''tailwindcss/base'' @ [CHR 0x27] @ '';'',
        ''  @import '' @ [CHR 0x27] @ ''tailwindcss/components'' @ [CHR 0x27] @ '';'',
        ''  @import '' @ [CHR 0x27] @ ''tailwindcss/utilities'' @ [CHR 0x27] @ '';''] @ ''  ''"

definition htmlContent :: "path \<Rightarrow> string" where
  "htmlContent projectPath =
     unlines
       [[],
        ''  <!DOCTYPE html>'',
        ''  <html lang=\"en\">'',
        ''  <head>'',
        ''    <meta charset=\"UTF-8\">'',
        ''    <meta name=\"viewport\" content=\"width=device-width, initial-scale=1.0\">'',
        ''    <title>'' @ path_str projectPath @ ''</title>'',
        ''    <link href=\"./build/output.css\" rel=\"stylesheet\">'',
        ''  </head>'',
        ''  <body class=\"bg-gray-200 text-gray-900\">'',
        ''    <!-- Your content here -->'',
        ''  </body>'',
        ''  </html>''] @ ''  ''"

text \<open>\<^verbatim>\<open>text.replace(/content: \[\],/, ...)\<close> replaces the first occurrence of the pattern,
  which is a literal text. In a file that is a JSON document the pattern can only stand
  inside a string literal; such a file is left as it is.\<close>

fun replace_first :: "string \<Rightarrow> string \<Rightarrow> string \<Rightarrow> string" where
  "replace_first pat rep [] = (if pat = [] then rep else [])"
| "replace_first pat rep (c # cs) =
     (if prefix pat (c # cs) then rep @ drop (length pat) (c # cs)
      else c # replace_first pat rep cs)"

definition set_content_glob :: "content \<Rightarrow> content" where
  "set_content_glob tailwindConfigFile =
     (case tailwindConfigFile of
        Text t \<Rightarrow>
          Text (replace_first ''content: [],''
                  ''content: [\"./src/**/*.{html,js}\", \"./index.html\"],'' t)
      | Json v \<Rightarrow> Json v)"

text \<open>
  In the branch for a single dev script the source calls \<^verbatim>\<open>addScriptsToPackageJson\<close>
  without \<^verbatim>\<open>await\<close> and goes on to \<^verbatim>\<open>await runCommand(...)\<close>. The call runs up to its first
  \<^verbatim>\<open>await\<close>, that is through the \<^verbatim>\<open>existsSync\<close> test; then the caller continues, prints and
  spawns the next command, and the pending read, merge and write of the manifest complete
  while the child runs. When they land relative to what the child does to the files is not
  fixed by the program; the schedule names the three orders kept here, all of them before the
  child's end is handled. A failure of the pending call rejects a promise nobody awaits; it is
  recorded as an event and does not reach the caller.
\<close>

datatype schedule = MergeThenChild | ReadChildWrite | ChildThenMerge

definition merge_result :: "files \<Rightarrow> path \<Rightarrow> js_object \<Rightarrow> error + json" where
  "merge_result fs packageJsonPath scripts =
     (case readFile fs packageJsonPath of
        Inl e \<Rightarrow> Inl e
      | Inr packJsonFile \<Rightarrow>
          (case json_parse packJsonFile of
             Inl e \<Rightarrow> Inl e
           | Inr packageJson \<Rightarrow> set_scripts packageJson scripts))"

definition settle_write :: "path \<Rightarrow> error + json \<Rightarrow> world \<Rightarrow> world" where
  "settle_write packageJsonPath r w =
     (case r of
        Inl e \<Rightarrow> emit (UnhandledRejection e) w
      | Inr updated \<Rightarrow>
          (case writeFile packageJsonPath (Json updated) w of
             (Thrown e, w') \<Rightarrow> emit (UnhandledRejection e) w'
           | (_, w') \<Rightarrow> w'))"

definition floating_merge_then_runCommand ::
  "schedule \<Rightarrow> processes \<Rightarrow> path \<Rightarrow> js_object \<Rightarrow> string \<Rightarrow> path \<Rightarrow> step" where
  "floating_merge_then_runCommand sched P projectPath scripts command cwd w =
     (let packageJsonPath = path_join projectPath ''package.json'' in
      case regex_matches command of
        [] \<Rightarrow> (Thrown TypeError, emit (ConsoleLog command) w)
      | cmd # args \<Rightarrow>
          (let w1 = emit (Spawn cmd args cwd) (emit (ConsoleLog command) w) in
           if \<not> existsSync (files w) packageJsonPath then
             (case child_effect P cmd args cwd
                     (emit (UnhandledRejection (file_not_found packageJsonPath)) w1) of
                (res, w2) \<Rightarrow> child_closed command cmd args res w2)
           else
             (case sched of
                MergeThenChild \<Rightarrow>
                  (case child_effect P cmd args cwd
                          (settle_write packageJsonPath
                             (merge_result (files w1) packageJsonPath scripts) w1) of
                     (res, w2) \<Rightarrow> child_closed command cmd args res w2)
              | ReadChildWrite \<Rightarrow>
                  (case child_effect P cmd args cwd w1 of
                     (res, w2) \<Rightarrow>
                       child_closed command cmd args res
                         (settle_write packageJsonPath
                            (merge_result (files w1) packageJsonPath scripts) w2))
              | ChildThenMerge \<Rightarrow>
                  (case child_effect P cmd args cwd w1 of
                     (res, w2) \<Rightarrow>
                       child_closed command cmd args res
                         (settle_write packageJsonPath
                            (merge_result (files w2) packageJsonPath scripts) w2)))))"

definition setupTailwindcss :: "schedule \<Rightarrow> processes \<Rightarrow> path \<Rightarrow> string \<Rightarrow> bool \<Rightarrow> step" where
  "setupTailwindcss sched P projectPath type singleDevScript =
     (let configType = (if type = ''TypeScript'' then ''--ts'' else ''--esm'');
          tailwindConfigFileName =
            (if type = ''TypeScript'' then ''tailwind.config.ts'' else ''tailwind.config.js'');
          tailwindConfigPath = path_join projectPath tailwindConfigFileName
      in
      do_all
        [runCommand P ''npm install --save-dev tailwindcss'' projectPath,
         runCommand P (''npx tailwindcss init '' @ configType) projectPath,
         mkdir_recursive (path_join projectPath ''src/styles''),
         read_then tailwindConfigPath (\<lambda>tailwindConfigFile.
           writeFile tailwindConfigPath (set_content_glob tailwindConfigFile)),
         writeFile (path_join (path_join projectPath ''src/styles/'') ''styles.css'')
           (Text cssContent),
         writeFile (path_join projectPath ''index.html'') (Text (htmlContent projectPath)),
         (if singleDevScript then
            floating_merge_then_runCommand sched P projectPath
              [(''css'', JStr ''tailwindcss -i ./src/styles.css -o ./build/output.css --watch'')]
              ''npm install --save-dev prettier-plugin-tailwindcss'' projectPath
          else
            do_all
              [addScriptsToPackageJson projectPath
                 [(''dev:tailwind'',
                   JStr ''tailwindcss -i ./src/styles/tailwind.css -o ./build/output.css --watch'')],
               runCommand P ''npm install --save-dev prettier-plugin-tailwindcss'' projectPath])])"

subsection \<open>Lint and format configuration, Git\<close>

definition createEslintConfig :: "processes \<Rightarrow> path \<Rightarrow> path \<Rightarrow> string \<Rightarrow> step" where
  "createEslintConfig P dirname projectPath type =
     (if type = ''JavaScript'' then
        do_all
          [runCommand P ''npm install --save-dev eslint-config-airbnb'' projectPath,
           read_then (ESLINT_CONFIG_JS dirname) (\<lambda>eslintConfig.
             writeFile (path_join projectPath ''.eslintrc.json'') eslintConfig)]
      else if type = ''TypeScript'' then
        read_then (ESLINT_CONFIG_TS dirname) (\<lambda>eslintConfig.
          writeFile (path_join projectPath ''.eslintrc.json'') eslintConfig)
      else throw (Error ''Invalid project type''))"

definition createPrettierConfig :: "path \<Rightarrow> path \<Rightarrow> step" where
  "createPrettierConfig dirname projectPath =
     read_then (PRETTIER_CONFIG dirname) (\<lambda>prettierConfig.
       writeFile (path_join projectPath ''.prettierrc.json'') prettierConfig)"

definition setupGit :: "processes \<Rightarrow> path \<Rightarrow> path \<Rightarrow> bool \<Rightarrow> string \<Rightarrow> step" where
  "setupGit P dirname projectPath useGit projectName =
     do_all
       [(if useGit then
           do_all
             [read_then (GITIGNORE dirname) (\<lambda>gitIgnore.
                writeFile (path_join projectPath ''.gitignore'') gitIgnore),
              runCommand P ''git init'' projectPath,
              runCommand P ''git add .'' projectPath,
              runCommand P ''git commit -m \"Initial commit: project setup\"'' projectPath,
              runCommand P ''git checkout -b dev'' projectPath,
              console_log (''Git has been set up, and you are now on the '' @ [CHR 0x27] @ ''dev''
                           @ [CHR 0x27] @ '' branch.'')]
         else do_all []),
        console_log (''Project '' @ projectName @ '' has been created'')]"

section \<open>The pipeline\<close>

definition project_error_handler :: "error \<Rightarrow> step" where
  "project_error_handler error =
     do_all [console_error (''Error creating project: '' @ message error), process_exit 1]"

text \<open>\<^verbatim>\<open>let singleDevScript = true; if (type === "TypeScript" && useTailwindcss) singleDevScript = false;\<close>\<close>

definition singleDevScript :: "string \<Rightarrow> bool \<Rightarrow> bool" where
  "singleDevScript type useTailwindcss = (if type = ''TypeScript'' \<and> useTailwindcss then False else True)"

definition createProject ::
  "schedule \<Rightarrow> processes \<Rightarrow> path \<Rightarrow> path \<Rightarrow> string \<Rightarrow> string \<Rightarrow> bool \<Rightarrow> bool \<Rightarrow> step" where
  "createProject sched P dirname cwd projectName type useTailwindcss useGit =
     try_catch
       (let projectPath = path_resolve cwd projectName in
        do_all
          [mkdir projectPath,
           createNpmProject P projectPath,
           (if type = ''TypeScript'' \<and> useTailwindcss then
              do_all
                [runCommand P ''npm install --save-dev npm-run-all'' projectPath,
                 addScriptsToPackageJson projectPath [(''dev'', JStr ''run-p dev:*'')]]
            else do_all []),
           (if type = ''TypeScript'' then setupTypescript P dirname projectPath (singleDevScript type useTailwindcss)
            else do_all []),
           (if useTailwindcss then setupTailwindcss sched P projectPath type (singleDevScript type useTailwindcss)
            else do_all []),
           createEslintConfig P dirname projectPath type,
           createPrettierConfig dirname projectPath,
           setupGit P dirname projectPath useGit projectName])
       project_error_handler"

subsection \<open>The older generator, \<^verbatim>\<open>js-generator.js\<close>\<close>

text \<open>It shares \<^verbatim>\<open>runCommand\<close>, \<^verbatim>\<open>addScriptsToPackageJson\<close>, \<^verbatim>\<open>createEslintConfig\<close>,
  \<^verbatim>\<open>createPrettierConfig\<close> and \<^verbatim>\<open>setupGit\<close> with the newer one; it has no module type and no
  Tailwind step.\<close>

definition createNpmProject_legacy :: "processes \<Rightarrow> path \<Rightarrow> step" where
  "createNpmProject_legacy P projectPath =
     try_catch
       (do_all
          [runCommand P ''npm init -y'' projectPath,
           runCommand P ''npm install --save-dev eslint prettier eslint-config-prettier eslint-config-airbnb eslint-plugin-import'' projectPath,
           addScriptsToPackageJson projectPath
             [(''format'', JStr ''prettier --write .''), (''lint'', JStr ''eslint .'')]])
       npm_error_handler"

definition installTypescript :: "processes \<Rightarrow> path \<Rightarrow> path \<Rightarrow> step" where
  "installTypescript P dirname projectPath =
     do_all
       [runCommand P ''npm install typescript @types/node @typescript-eslint/parser @typescript-eslint/eslint-plugin'' projectPath,
        read_then (TSCONFIG dirname) (\<lambda>tsconfig.
          writeFile (path_join projectPath ''tsconfig.json'') tsconfig),
        mkdir (path_join projectPath ''src''),
        addScriptsToPackageJson projectPath
          [(''build'', JStr ''tsc''), (''dev'', JStr ''tsc -w''), (''typecheck'', JStr ''tsc -b'')]]"

definition createProject_legacy ::
  "processes \<Rightarrow> path \<Rightarrow> path \<Rightarrow> string \<Rightarrow> string \<Rightarrow> bool \<Rightarrow> step" where
  "createProject_legacy P dirname cwd projectName type useGit =
     try_catch
       (let projectPath = path_resolve cwd projectName in
        do_all
          [mkdir projectPath,
           createNpmProject_legacy P projectPath,
           (if type = ''TypeScript'' then installTypescript P dirname projectPath else do_all []),
           createEslintConfig P dirname projectPath type,
           createPrettierConfig dirname projectPath,
           setupGit P dirname projectPath useGit projectName])
       project_error_handler"

section \<open>Observations and sample runs\<close>

text \<open>The scripts object of the manifest of a project, as it stands on disk.\<close>

definition persisted_scripts :: "files \<Rightarrow> path \<Rightarrow> js_object option" where
  "persisted_scripts fs projectPath =
     (case fs (path_join projectPath ''package.json'') of
        Some (File (Json (JObj kv))) \<Rightarrow>
          (case map_of kv ''scripts'' of Some (JObj sc) \<Rightarrow> Some sc | _ \<Rightarrow> None)
      | _ \<Rightarrow> None)"

definition empty_world :: world where
  "empty_world = \<lparr>files = (\<lambda>p. None), trace = []\<rparr>"

text \<open>A project directory \<^verbatim>\<open>/demo\<close> whose manifest has two scripts named by numerals,
  \<^verbatim>\<open>{"scripts": {"9": "echo nine", "10": "echo ten"}}\<close>.\<close>

definition numbered_world :: world where
  "numbered_world =
     \<lparr>files = ((\<lambda>p. None)
         ([''demo''] \<mapsto> Dir,
          [''demo'', ''package.json''] \<mapsto>
            File (Json (JObj [(''scripts'',
              JObj [(''9'', JStr ''echo nine''), (''10'', JStr ''echo ten'')])])))),
      trace = []\<rparr>"

text \<open>A file system with the directory \<^verbatim>\<open>/home/demo\<close> already there.\<close>

definition occupied_world :: world where
  "occupied_world =
     \<lparr>files = ((\<lambda>p. None)([''home''] \<mapsto> Dir, [''home'', ''demo''] \<mapsto> Dir,
                  [''home'', ''demo'', ''notes.txt''] \<mapsto> File (Text ''keep''))),
      trace = []\<rparr>"

definition no_processes :: processes where
  "no_processes cmd args cwd fs = (LaunchFailed ''ENOENT'', fs)"

section \<open>Tokenizing as the specification words it\<close>








section \<open>Reading a trace\<close>

text \<open>
  A step \<open>emits Q\<close> when every run of it only appends events to the trace, and the outcome
  and the appended events satisfy \<open>Q\<close>.
\<close>

definition emits :: "step \<Rightarrow> (outcome \<Rightarrow> event list \<Rightarrow> bool) \<Rightarrow> bool" where
  "emits s Q \<longleftrightarrow> (\<forall>w r w'. s w = (r, w') \<longrightarrow> (\<exists>t. trace w' = trace w @ t \<and> Q r t))"

definition failed :: "spawn_result \<Rightarrow> bool" where
  "failed res \<longleftrightarrow> res \<noteq> ChildExit (Some 0)"

fun is_failure :: "event \<Rightarrow> bool" where
  "is_failure (ChildClosed command res) = failed res"
| "is_failure _ = False"

fun is_console_error :: "event \<Rightarrow> bool" where
  "is_console_error (ConsoleError m) = True"
| "is_console_error _ = False"

definition clean :: "event list \<Rightarrow> bool" where
  "clean t \<longleftrightarrow> \<not> list_ex is_failure t"

text \<open>What \<^verbatim>\<open>runCommand\<close> prints about a command that failed: the line with the command for
  a launch failure, the message of the error it rejects with for an exit code.\<close>

fun failure_report :: "string \<Rightarrow> spawn_result \<Rightarrow> string" where
  "failure_report command (LaunchFailed code) = ''Error while executing command: '' @ command"
| "failure_report command (ChildExit code) = message (exit_error command code)"

text \<open>
  The events of a run that a failed command halted: nothing failed before it, and after it
  there is console error output only, the report on the command included.
\<close>

definition halted_by :: "string \<Rightarrow> spawn_result \<Rightarrow> event list \<Rightarrow> bool" where
  "halted_by command res t \<longleftrightarrow>
     (\<exists>pre post. t = pre @ ChildClosed command res # post \<and> clean pre \<and> failed res \<and>
        list_all is_console_error post \<and> ConsoleError (failure_report command res) \<in> set post)"




section \<open>A sample installation\<close>









fun manifest_write :: "path \<Rightarrow> event \<Rightarrow> bool" where
  "manifest_write projectPath (WriteFile p c) = (p = path_join projectPath ''package.json'')"
| "manifest_write projectPath _ = False"


section \<open>The scripts on disk and the external commands\<close>

text \<open>
  The scripts of the manifest of a project as a lookup from names to values, when the
  manifest on disk is an object: what spreading \<^verbatim>\<open>packageJson.scripts\<close> yields.
\<close>

definition manifest_scripts :: "files \<Rightarrow> path \<Rightarrow> (string \<rightharpoonup> json) option" where
  "manifest_scripts fs projectPath =
     (case fs (path_join projectPath ''package.json'') of
        Some (File (Json (JObj kv))) \<Rightarrow> Some (map_of (rev (spread_entries (map_of kv ''scripts''))))
      | _ \<Rightarrow> None)"

text \<open>
  What the generator relies on in npm, npx and git: a command run while the manifest is
  there leaves it an object and leaves its scripts as they are (\<^verbatim>\<open>npm install\<close> adds
  dependencies to the manifest, not scripts).
\<close>

definition keeps_scripts :: "processes \<Rightarrow> path \<Rightarrow> bool" where
  "keeps_scripts P projectPath \<longleftrightarrow>
     (\<forall>cmd args cwd fs m.
        manifest_scripts fs projectPath = Some m \<longrightarrow>
        manifest_scripts (snd (P cmd args cwd fs)) projectPath = Some m)"

definition preserves :: "path \<Rightarrow> step \<Rightarrow> bool" where
  "preserves projectPath s \<longleftrightarrow>
     (\<forall>w w' m. s w = (Ok, w') \<longrightarrow> manifest_scripts (files w) projectPath = Some m \<longrightarrow>
        manifest_scripts (files w') projectPath = Some m)"

section \<open>Properties of objects and of the sorted copy\<close>

lemma keys_insert_index: "fst ` set (insert_index k v obj) = insert k (fst ` set obj)"
  by (induction obj) auto

lemma map_of_insert_index:
  "k \<notin> fst ` set obj \<Longrightarrow> map_of (insert_index k v obj) = (map_of obj)(k \<mapsto> v)"
  by (induction obj) (auto simp: fun_eq_iff)

lemma distinct_insert_index:
  "k \<notin> fst ` set obj \<Longrightarrow> distinct (map fst obj) \<Longrightarrow> distinct (map fst (insert_index k v obj))"
proof (induction obj)
  case Nil
  then show ?case by simp
next
  case (Cons p ps)
  have "fst p \<notin> fst ` set (insert_index k v ps)"
    using Cons.prems by (auto simp: keys_insert_index)
  with Cons show ?case by auto
qed

lemma keys_obj_set: "fst ` set (obj_set obj k v) = insert k (fst ` set obj)"
  by (simp add: obj_set_def keys_insert_index dom_update)

lemma map_of_obj_set: "map_of (obj_set obj k v) = (map_of obj)(k \<mapsto> v)"
  by (simp add: obj_set_def map_of_insert_index update_conv')

lemma distinct_obj_set:
  "distinct (map fst obj) \<Longrightarrow> distinct (map fst (obj_set obj k v))"
  by (simp add: obj_set_def distinct_insert_index distinct_update)

lemma obj_set_plain: "\<not> is_array_index k \<Longrightarrow> obj_set obj k v = AList.update k v obj"
  by (simp add: obj_set_def)

lemma map_of_spread_into:
  "map_of (spread_into target src) = map_of target ++ map_of (rev src)"
  unfolding spread_into_def
proof (induction src arbitrary: target)
  case Nil
  then show ?case by simp
next
  case (Cons p ps)
  obtain k v where p: "p = (k, v)" by (cases p)
  show ?case
    by (simp add: p Cons.IH map_of_obj_set map_add_upd_left fun_eq_iff map_add_def split: option.splits)
qed

lemma distinct_spread_into:
  "distinct (map fst target) \<Longrightarrow> distinct (map fst (spread_into target src))"
  unfolding spread_into_def
  by (induction src arbitrary: target) (auto simp: distinct_obj_set)

lemma map_of_rev_distinct: "distinct (map fst xs) \<Longrightarrow> map_of (rev xs) = map_of xs"
  by (metis distinct_rev map_of_inject_set rev_map set_rev)

lemma distinct_merged_scripts: "distinct (map fst (merged_scripts old scripts))"
  by (simp add: merged_scripts_def distinct_spread_into)

lemma map_of_merged_scripts:
  "map_of (merged_scripts old scripts) = map_of (rev (spread_entries old)) ++ map_of (rev scripts)"
  by (simp add: merged_scripts_def map_of_spread_into)


lemma distinct_reducer: "distinct (map fst (reducer merged obj key))"
  by (simp add: reducer_def distinct_obj_set distinct_spread_into split: option.splits)

lemma map_of_reducer:
  "distinct (map fst obj) \<Longrightarrow>
   map_of (reducer merged obj key) = map_of obj ++ (map_of merged |` {key})"
  by (auto simp: reducer_def map_of_obj_set map_of_spread_into map_of_rev_distinct fun_eq_iff
      map_add_def restrict_map_def split: option.splits)

lemma fold_reducer:
  "distinct (map fst obj) \<Longrightarrow>
   distinct (map fst (foldl (reducer merged) obj ks)) \<and>
   map_of (foldl (reducer merged) obj ks) = map_of obj ++ (map_of merged |` set ks)"
proof (induction ks arbitrary: obj)
  case Nil
  then show ?case by simp
next
  case (Cons k ks)
  have d: "distinct (map fst (reducer merged obj k))"
    by (rule distinct_reducer)
  have "map_of obj ++ map_of merged |` {k} ++ map_of merged |` set ks
        = map_of obj ++ map_of merged |` set (k # ks)"
    by (auto simp: fun_eq_iff map_add_def restrict_map_def split: option.splits)
  with Cons.IH [OF d] Cons.prems show ?case
    by (simp add: map_of_reducer)
qed

lemma map_of_sorted_scripts: "map_of (sorted_scripts merged) = map_of merged"
proof -
  have "map_of (sorted_scripts merged) = map_of merged |` set (map fst merged)"
    using fold_reducer [of "[]" merged "sort (map fst merged)"]
    by (simp add: sorted_scripts_def)
  also have "\<dots> = map_of merged"
  proof
    fix x
    have "map_of merged x = None" if "x \<notin> fst ` set merged"
      using that by (simp add: map_of_eq_None_iff)
    then show "(map_of merged |` set (map fst merged)) x = map_of merged x"
      by (auto simp: restrict_map_def)
  qed
  finally show ?thesis .
qed

lemma distinct_sorted_scripts: "distinct (map fst (sorted_scripts merged))"
  using fold_reducer [of "[]" merged "sort (map fst merged)"]
  by (simp add: sorted_scripts_def)

lemma sorted_scripts_cong:
  assumes "map_of m1 = map_of m2" "distinct (map fst m1)" "distinct (map fst m2)"
  shows "sorted_scripts m1 = sorted_scripts m2"
proof -
  have "set (map fst m1) = set (map fst m2)"
    using assms(1) by (metis dom_map_of_conv_image_fst set_map)
  then have "sort (map fst m1) = sort (map fst m2)"
    using assms(2,3) by (intro sorted_distinct_set_unique) simp_all
  moreover have "reducer m1 = reducer m2"
    by (simp add: reducer_def fun_eq_iff assms(1))
  ultimately show ?thesis
    by (simp add: sorted_scripts_def)
qed

lemma set_scripts_object:
  "set_scripts (JObj kv) scripts =
     Inr (JObj (AList.update ''scripts''
                  (JObj (sorted_scripts (merged_scripts (map_of kv ''scripts'') scripts))) kv))"
proof -
  have "\<not> is_array_index ''scripts''"
    by (simp add: is_array_index_def is_digit_def)
  then show ?thesis
    by (simp add: set_scripts_def Let_def obj_set_plain)
qed

lemma set_scripts_idem:
  assumes "set_scripts v scripts = Inr u"
  shows "set_scripts u scripts = Inr u"
proof (cases v)
  case (JObj kv)
  define m where "m = merged_scripts (map_of kv ''scripts'') scripts"
  define s where "s = sorted_scripts m"
  have u: "u = JObj (AList.update ''scripts'' (JObj s) kv)"
    using assms by (simp add: JObj set_scripts_object m_def s_def)
  define m' where "m' = merged_scripts (Some (JObj s)) scripts"
  have "map_of m' = map_of (rev s) ++ map_of (rev scripts)"
    by (simp add: m'_def map_of_merged_scripts)
  also have "map_of (rev s) = map_of m"
    by (simp add: s_def map_of_rev_distinct distinct_sorted_scripts map_of_sorted_scripts)
  also have "map_of m ++ map_of (rev scripts) = map_of m"
    by (auto simp: m_def map_of_merged_scripts fun_eq_iff map_add_def split: option.splits)
  finally have "sorted_scripts m' = s"
    unfolding s_def by (rule sorted_scripts_cong) (simp_all add: m_def m'_def distinct_merged_scripts)
  then show ?thesis
    by (simp add: u set_scripts_object update_conv' m'_def)
qed (use assms in \<open>auto simp: set_scripts_def\<close>)

section \<open>The script merge on disk\<close>

lemma path_join_package_json [simp]: "path_join p ''package.json'' = p @ [''package.json'']"
  by (simp add: path_join_def)

lemma addScripts_unfold:
  "addScriptsToPackageJson projectPath scripts w =
     (if files w (projectPath @ [''package.json'']) = None then
        (Thrown (file_not_found (projectPath @ [''package.json''])), w)
      else case merge_result (files w) (projectPath @ [''package.json'']) scripts of
        Inl e \<Rightarrow> (Thrown e, w)
      | Inr updated \<Rightarrow> writeFile (projectPath @ [''package.json'']) (Json updated) w)"
  by (simp add: addScriptsToPackageJson_def Let_def existsSync_def lift_def merge_result_def
      split: sum.splits)

text \<open>
  Claim C10. When \<^verbatim>\<open>package.json\<close> does not exist at the project path, the script merge
  throws the error \<^verbatim>\<open>File not found: <path>\<close> before any read or write: the world it
  returns, files and trace, is the world it was given.
\<close>
theorem merge_missing_manifest:
  assumes "files w (path_join projectPath ''package.json'') = None"
  shows "addScriptsToPackageJson projectPath scripts w =
           (Thrown (file_not_found (path_join projectPath ''package.json'')), w)"
  using assms by (simp add: addScripts_unfold)

theorem merge_missing_manifest_witness:
  "files empty_world (path_join [''demo''] ''package.json'') = None \<and>
   addScriptsToPackageJson [''demo''] [(''lint'', JStr ''eslint .'')] empty_world =
     (Thrown (Error ''File not found: /demo/package.json''), empty_world)"
  using merge_missing_manifest [of empty_world "[''demo'']" "[(''lint'', JStr ''eslint .'')]"]
  by (simp add: empty_world_def file_not_found_def path_str_def)

lemma merge_result_written:
  assumes "merge_result fs pp scripts = Inr u" "pp \<noteq> []"
  shows "merge_result (fs(pp \<mapsto> File (Json u))) pp scripts = Inr u"
  using assms
  by (auto simp: merge_result_def readFile_def json_parse_def set_scripts_idem
      split: sum.splits option.splits node.splits content.splits if_splits)

text \<open>
  Claim C6. The script merge is idempotent: applied a second time with the same additions,
  right after the first, it ends the same way and leaves every file as the first application
  left it. This holds for every state of the files, also where the merge fails.
\<close>
theorem mergeScripts_idempotent:
  "fst (addScriptsToPackageJson projectPath scripts
          (snd (addScriptsToPackageJson projectPath scripts w))) =
     fst (addScriptsToPackageJson projectPath scripts w) \<and>
   files (snd (addScriptsToPackageJson projectPath scripts
          (snd (addScriptsToPackageJson projectPath scripts w)))) =
     files (snd (addScriptsToPackageJson projectPath scripts w))"
proof -
  define pp where "pp = projectPath @ [''package.json'']"
  have pp: "pp \<noteq> []" "butlast pp \<noteq> pp"
    by (simp_all add: pp_def)
  show ?thesis
  proof (cases "files w pp = None")
    case True
    then show ?thesis by (simp add: addScripts_unfold pp_def)
  next
    case exists: False
    show ?thesis
    proof (cases "merge_result (files w) pp scripts")
      case (Inl e)
      with exists show ?thesis by (auto simp: addScripts_unfold pp_def)
    next
      case (Inr u)
      show ?thesis
      proof (cases "is_dir (files w) pp \<or> \<not> is_dir (files w) (butlast pp)")
        case True
        with exists Inr show ?thesis
          by (auto simp: addScripts_unfold pp_def [symmetric] writeFile_def)
      next
        case False
        define w' where "w' = emit (WriteFile pp (Json u)) (w\<lparr>files := (files w)(pp \<mapsto> File (Json u))\<rparr>)"
        have first: "addScriptsToPackageJson projectPath scripts w = (Ok, w')"
          using exists Inr False
          by (simp add: addScripts_unfold pp_def [symmetric] writeFile_def w'_def)
        have fs': "files w' = (files w)(pp \<mapsto> File (Json u))"
          by (simp add: w'_def emit_def)
        have dirs: "\<not> is_dir (files w') pp" "is_dir (files w') (butlast pp)"
          using False pp by (auto simp: fs' is_dir_def)
        have "merge_result (files w') pp scripts = Inr u"
          unfolding fs' using Inr pp(1) by (rule merge_result_written)
        then have "addScriptsToPackageJson projectPath scripts w' =
            (Ok, emit (WriteFile pp (Json u)) (w'\<lparr>files := (files w')(pp \<mapsto> File (Json u))\<rparr>))"
          using dirs by (simp add: addScripts_unfold pp_def [symmetric] writeFile_def fs')
        then show ?thesis
          by (simp add: first emit_def fs')
      qed
    qed
  qed
qed

text \<open>
  Claim C1, at a manifest whose scripts are named \<^verbatim>\<open>9\<close> and \<^verbatim>\<open>10\<close>, merged with
  \<^verbatim>\<open>{lint}\<close>. The sort gives \<^verbatim>\<open>["10", "9", "lint"]\<close>, but the object rebuilt from these
  keys enumerates its array-index keys first and in numeric order, so the persisted keys are
  \<^verbatim>\<open>9, 10, lint\<close>, which is not ascending in the order of code units.
\<close>
theorem numeral_script_names_not_sorted:
  "persisted_scripts
     (files (snd (addScriptsToPackageJson [''demo''] [(''lint'', JStr ''eslint .'')] numbered_world)))
     [''demo''] =
     Some [(''9'', JStr ''echo nine''), (''10'', JStr ''echo ten''), (''lint'', JStr ''eslint .'')] \<and>
   \<not> sorted [''9'', ''10'', ''lint'']"
  by (simp add: addScripts_unfold numbered_world_def merge_result_def readFile_def json_parse_def
      set_scripts_def merged_scripts_def sorted_scripts_def reducer_def spread_into_def obj_set_def
      is_array_index_def is_digit_def dec_value_def writeFile_def is_dir_def emit_def
      persisted_scripts_def)

section \<open>An existing project directory\<close>

lemma mkdir_existing:
  "existsSync (files w) p \<Longrightarrow> mkdir p w = (Thrown (SystemError ''EEXIST'' ''mkdir'' [path_str p]), w)"
  by (simp add: mkdir_def)

lemma project_error_handler_exits:
  "project_error_handler e w = (Exited 1, emit (ConsoleError (''Error creating project: '' @ message e)) w)"
  by (simp add: project_error_handler_def console_error_def process_exit_def)

text \<open>
  Claim C9. When the path of the new project already exists as a directory, \<^verbatim>\<open>mkdir\<close> fails with
  EEXIST; both generators print \<^verbatim>\<open>Error creating project: ...\<close> and exit with status 1. The
  world they leave differs from the one they found by that one line on the console: no
  command was spawned, no file was written, and the files are those found.
\<close>
theorem existing_directory_aborts:
  assumes "is_dir (files w) (path_resolve cwd projectName)"
  shows "createProject sched P dirname cwd projectName type useTailwindcss useGit w =
           (Exited 1,
            emit (ConsoleError (''Error creating project: '' @
                    message (SystemError ''EEXIST'' ''mkdir'' [path_str (path_resolve cwd projectName)]))) w)
         \<and>
         createProject_legacy P dirname cwd projectName type useGit w =
           (Exited 1,
            emit (ConsoleError (''Error creating project: '' @
                    message (SystemError ''EEXIST'' ''mkdir'' [path_str (path_resolve cwd projectName)]))) w)"
proof -
  have "existsSync (files w) (path_resolve cwd projectName)"
    using assms by (auto simp: is_dir_def existsSync_def)
  then show ?thesis
    by (simp add: createProject_def createProject_legacy_def try_catch_def Let_def mkdir_existing
        project_error_handler_exits)
qed

theorem existing_directory_aborts_witness:
  "is_dir (files occupied_world) (path_resolve [''home''] ''demo'') \<and>
   createProject MergeThenChild no_processes [''opt''] [''home''] ''demo'' ''TypeScript'' True True
       occupied_world =
     (Exited 1,
      occupied_world\<lparr>trace :=
        [ConsoleError ''Error creating project: EEXIST: mkdir /home/demo'']\<rparr>) \<and>
   createProject_legacy no_processes [''opt''] [''home''] ''demo'' ''TypeScript'' True occupied_world =
     (Exited 1,
      occupied_world\<lparr>trace :=
        [ConsoleError ''Error creating project: EEXIST: mkdir /home/demo'']\<rparr>)"
proof -
  have d: "is_dir (files occupied_world) (path_resolve [''home''] ''demo'')"
    by (simp add: is_dir_def occupied_world_def path_resolve_def)
  show ?thesis
    using d existing_directory_aborts [OF d, of MergeThenChild no_processes "[''opt'']" "''TypeScript''" True True]
    by (simp add: emit_def path_resolve_def path_str_def occupied_world_def)
qed

section \<open>The tokenizer on command lines\<close>




















section \<open>Runs only append to the trace\<close>




lemma emits_if:
  assumes "emits s1 Q" "emits s2 Q"
  shows "emits (if c then s1 else s2) Q"
  using assms by simp






lemma clean_simps [simp]:
  "clean []" "clean (e # t) \<longleftrightarrow> \<not> is_failure e \<and> clean t"
  "clean (t1 @ t2) \<longleftrightarrow> clean t1 \<and> clean t2"
  by (auto simp: clean_def list_ex_iff)

lemma halted_by_prepend: "clean t1 \<Longrightarrow> halted_by c res t2 \<Longrightarrow> halted_by c res (t1 @ t2)"
  unfolding halted_by_def
  by (metis append.assoc clean_simps(3))






section \<open>Steps that close no child, and steps that do\<close>


lemma halted_by_Cons:
  assumes "\<not> is_failure e" "halted_by c res t"
  shows "halted_by c res (e # t)"
  using halted_by_prepend [of "[e]" c res t] assms by simp


















section \<open>A failed command halts the pipeline\<close>
















section \<open>The module type\<close>

lemma nmw_simps [simp]:
  "list_ex (manifest_write pp) (t1 @ t2) \<longleftrightarrow> list_ex (manifest_write pp) t1 \<or> list_ex (manifest_write pp) t2"
  by (auto simp: list_ex_iff)

















end
